theory Spec2Isabelle
  imports Main
begin

section \<open>Data model\<close>

subsection \<open>Enumerations of the service's protocol\<close>

text \<open>
  The generated protocol package declares the two enumerations the service returns.
  \<open>Status\<close> is the outcome of an orchestrator operation, \<open>SubscriptionStatus\<close> the
  lifecycle status reported in a subscription record. The zero value of
  \<open>SubscriptionStatus\<close> is \<open>SUBSCRIPTION_STATUS_UNSPECIFIED\<close>.
\<close>

datatype Status =
    STATUS_OK
  | STATUS_INVALID_USER
  | STATUS_INVALID_PLAN
  | STATUS_INVALID_PAYMENT_METHOD
  | STATUS_INTERNAL_ERROR

datatype SubscriptionStatus =
    SUBSCRIPTION_STATUS_UNSPECIFIED
  | SUBSCRIPTION_STATUS_ACTIVE
  | SUBSCRIPTION_STATUS_CANCELED
  | SUBSCRIPTION_STATUS_INCOMPLETE_EXPIRED
  | SUBSCRIPTION_STATUS_UNPAID
  | SUBSCRIPTION_STATUS_TRIALING

subsection \<open>Processor statuses\<close>

text \<open>
  The processor library declares \<open>type SubscriptionStatus string\<close>: a processor status is
  any string, and the named statuses are string constants of the library (stripe-go v82).
\<close>

type_synonym stripe_SubscriptionStatus = string

definition SubscriptionStatusActive :: stripe_SubscriptionStatus where
  "SubscriptionStatusActive = ''active''"

definition SubscriptionStatusCanceled :: stripe_SubscriptionStatus where
  "SubscriptionStatusCanceled = ''canceled''"

definition SubscriptionStatusIncompleteExpired :: stripe_SubscriptionStatus where
  "SubscriptionStatusIncompleteExpired = ''incomplete_expired''"

definition SubscriptionStatusUnpaid :: stripe_SubscriptionStatus where
  "SubscriptionStatusUnpaid = ''unpaid''"

definition SubscriptionStatusTrialing :: stripe_SubscriptionStatus where
  "SubscriptionStatusTrialing = ''trialing''"

subsection \<open>Processor objects\<close>

text \<open>
  The fields of the processor library's objects that the service reads. A Go pointer that
  the code dereferences without a check is an \<open>option\<close>: \<open>None\<close> is the nil pointer.
  \<open>Subscription.Items\<close> is a pointer to a list object whose \<open>Data\<close> is a slice of item
  pointers, and an item's \<open>Price\<close> is a pointer.
\<close>

record stripe_Customer =
  customer_ID :: string

record stripe_Price =
  price_ID :: string

record stripe_SubscriptionItem =
  item_Price :: "stripe_Price option"

record stripe_Subscription =
  sub_ID :: string
  sub_Status :: stripe_SubscriptionStatus
  sub_Items :: "stripe_SubscriptionItem option list option"
  sub_CanceledAt :: int

text \<open>The request parameters the service fills in.\<close>

record stripe_CustomerParams =
  cp_Description :: "string option"
  cp_Metadata :: "(string \<times> string) list"
  cp_DefaultPaymentMethod :: "string option"

record stripe_SubscriptionParams =
  sp_Customer :: "string option"
  sp_Items :: "string list"
  sp_PaymentBehavior :: "string option"
  sp_SaveDefaultPaymentMethod :: "string option"
  sp_Expand :: "string list"

subsection \<open>The subscription record returned to callers\<close>

record data_Subscription =
  ID :: string
  PlanID :: string
  StripeSubID :: string
  Status :: SubscriptionStatus
  CurrentPeriodEnd :: int

text \<open>The zero value \<open>data.Subscription{}\<close>.\<close>

definition empty_Subscription :: data_Subscription where
  "empty_Subscription =
     \<lparr>ID = '''', PlanID = '''', StripeSubID = '''',
      Status = SUBSCRIPTION_STATUS_UNSPECIFIED, CurrentPeriodEnd = 0\<rparr>"

subsection \<open>The processor gateway and the world the service runs in\<close>

text \<open>
  A Go \<open>error\<close> is represented by its message. Every call of the processor library is a
  function of the processor's state that returns the library's result and the next state;
  the processor itself is outside the repository, so the gateway is a parameter of every
  operation. A library call returns either an error (\<open>Inl\<close>) or its object (\<open>Inr\<close>);
  \<open>customer.Get\<close> may return a nil customer without an error, which the service checks.
\<close>

type_synonym error = string

record 's Gateway =
  customer_Get :: "string \<Rightarrow> 's \<Rightarrow> (error + stripe_Customer option) \<times> 's"
  customer_New :: "stripe_CustomerParams \<Rightarrow> 's \<Rightarrow> (error + stripe_Customer) \<times> 's"
  customer_Update :: "string \<Rightarrow> stripe_CustomerParams \<Rightarrow> 's \<Rightarrow> error option \<times> 's"
  paymentmethod_Attach :: "string \<Rightarrow> string \<Rightarrow> 's \<Rightarrow> error option \<times> 's"
  subscription_New :: "stripe_SubscriptionParams \<Rightarrow> 's \<Rightarrow> (error + stripe_Subscription) \<times> 's"
  subscription_Get :: "string \<Rightarrow> 's \<Rightarrow> (error + stripe_Subscription) \<times> 's"
  subscription_Cancel :: "string \<Rightarrow> 's \<Rightarrow> (error + stripe_Subscription) \<times> 's"

text \<open>The requests the service can issue to the processor, with their arguments.\<close>

datatype call =
    Call_customer_Get string
  | Call_customer_New stripe_CustomerParams
  | Call_customer_Update string stripe_CustomerParams
  | Call_paymentmethod_Attach string string
  | Call_subscription_New stripe_SubscriptionParams
  | Call_subscription_Get string
  | Call_subscription_Cancel string

datatype Level = LevelDebug | LevelInfo | LevelWarn | LevelError | LevelFatal | LevelOff

text \<open>
  The world: the processor's state, the requests issued to the processor so far (in
  order), and the entries handed to the logger so far (level and message; the property
  maps carry no information that any operation reads back).
\<close>

record 's world =
  proc :: 's
  calls :: "call list"
  logged :: "(Level \<times> string) list"

definition request :: "call \<Rightarrow> ('s \<Rightarrow> 'r \<times> 's) \<Rightarrow> 's world \<Rightarrow> 'r \<times> 's world" where
  "request c f w =
     (case f (proc w) of (r, s') \<Rightarrow> (r, w\<lparr>proc := s', calls := calls w @ [c]\<rparr>))"

definition PrintInfoWithContext :: "string \<Rightarrow> 's world \<Rightarrow> 's world" where
  "PrintInfoWithContext message w = w\<lparr>logged := logged w @ [(LevelInfo, message)]\<rparr>"

definition PrintErrorWithContext :: "error \<Rightarrow> 's world \<Rightarrow> 's world" where
  "PrintErrorWithContext err w = w\<lparr>logged := logged w @ [(LevelError, err)]\<rparr>"

subsection \<open>The call context\<close>

text \<open>
  \<open>ctx.Value(UserIDKey)\<close> is nil, an \<open>int64\<close>, or a value of another type. The identity
  is never used in arithmetic, so the \<open>int64\<close> is an integer.
\<close>

datatype ctx_value = Int64Value int | OtherValue

type_synonym Context = "ctx_value option"

section \<open>Pure helpers of the orchestrator\<close>

text \<open>
  \<open>getPaymentStatusFromStripe\<close>: a \<open>switch\<close> over the processor status; the first
  matching case wins, the \<open>default\<close> case returns \<open>UNSPECIFIED\<close>.
\<close>

definition getPaymentStatusFromStripe :: "stripe_SubscriptionStatus \<Rightarrow> SubscriptionStatus" where
  "getPaymentStatusFromStripe subscriptionStatus =
     (if subscriptionStatus = SubscriptionStatusActive then SUBSCRIPTION_STATUS_ACTIVE
      else if subscriptionStatus = SubscriptionStatusCanceled then SUBSCRIPTION_STATUS_CANCELED
      else if subscriptionStatus = SubscriptionStatusIncompleteExpired
        then SUBSCRIPTION_STATUS_INCOMPLETE_EXPIRED
      else if subscriptionStatus = SubscriptionStatusUnpaid then SUBSCRIPTION_STATUS_UNPAID
      else if subscriptionStatus = SubscriptionStatusTrialing then SUBSCRIPTION_STATUS_TRIALING
      else SUBSCRIPTION_STATUS_UNSPECIFIED)"

text \<open>
  \<open>mapPlanIDToStripePrice\<close>: the plan catalog. The plan identifier is an \<open>int32\<close>; it is
  only compared with 1 and 2, so it is modelled as an integer.
\<close>

definition mapPlanIDToStripePrice :: "int \<Rightarrow> string" where
  "mapPlanIDToStripePrice planID =
     (if planID = 1 then ''price_basic_123''
      else if planID = 2 then ''price_pro_456''
      else '''')"

text \<open>
  \<open>strconv.FormatInt(i, 10)\<close>: the decimal digits of the magnitude, most significant
  first, after a minus sign for a negative number.
\<close>

definition digit_char :: "nat \<Rightarrow> char" where
  "digit_char d = ''0123456789'' ! d"

function FormatUint :: "nat \<Rightarrow> string" where
  "FormatUint n =
     (if n < 10 then [digit_char n] else FormatUint (n div 10) @ [digit_char (n mod 10)])"
  by pat_completeness auto
termination
  by (relation "measure (\<lambda>n. n)") auto

declare FormatUint.simps [simp del]

definition FormatInt :: "int \<Rightarrow> string" where
  "FormatInt i = (if i < 0 then CHR ''-'' # FormatUint (nat (- i)) else FormatUint (nat i))"

text \<open>\<open>getUserFromContext\<close>: the identity is present only as an \<open>int64\<close> value.\<close>

definition getUserFromContext :: "Context \<Rightarrow> error + int" where
  "getUserFromContext ctx =
     (case ctx of
        None \<Rightarrow> Inl ''rpc error: code = Unauthenticated desc = user id is missing in context''
      | Some (Int64Value userID) \<Rightarrow> Inr userID
      | Some OtherValue \<Rightarrow>
          Inl ''rpc error: code = Unauthenticated desc = user id is invalid in context'')"

section \<open>The Subscription Lifecycle Orchestrator\<close>

text \<open>
  \<open>getOrCreateCustomer\<close>: fetch the customer whose processor identifier is \<open>userID\<close>;
  if the fetch returns an error or a nil customer, create a customer whose description
  and metadata carry \<open>userID\<close>. The creation request has no identifier field.
\<close>

definition getOrCreateCustomer :: "'s Gateway \<Rightarrow> string \<Rightarrow> 's world \<Rightarrow> (error + string) \<times> 's world" where
  "getOrCreateCustomer gw userID w =
     (let w0 = PrintInfoWithContext ''Getting or creating Stripe customer'' w in
      case request (Call_customer_Get userID) (customer_Get gw userID) w0 of
        (Inr (Some stripeCustomer), w1) \<Rightarrow>
          (Inr (customer_ID stripeCustomer),
           PrintInfoWithContext ''Retrieved existing Stripe customer'' w1)
      | (_, w1) \<Rightarrow>
          (let createParams =
                 \<lparr>cp_Description = Some (''Customer for user '' @ userID),
                  cp_Metadata = [(''user_id'', userID)],
                  cp_DefaultPaymentMethod = None\<rparr>
           in case request (Call_customer_New createParams) (customer_New gw createParams) w1 of
                (Inl err, w2) \<Rightarrow> (Inl err, PrintErrorWithContext err w2)
              | (Inr newCustomer, w2) \<Rightarrow>
                  (Inr (customer_ID newCustomer),
                   PrintInfoWithContext ''Created new Stripe customer'' w2)))"

definition attachPaymentMethod :: "'s Gateway \<Rightarrow> string \<Rightarrow> string \<Rightarrow> 's world \<Rightarrow> error option \<times> 's world" where
  "attachPaymentMethod gw customerID paymentMethodID w =
     (let w0 = PrintInfoWithContext ''Attaching payment method to customer'' w in
      case request (Call_paymentmethod_Attach paymentMethodID customerID)
             (paymentmethod_Attach gw paymentMethodID customerID) w0 of
        (Some err, w1) \<Rightarrow> (Some err, PrintErrorWithContext err w1)
      | (None, w1) \<Rightarrow>
          (None, PrintInfoWithContext ''Payment method attached to customer successfully'' w1))"

definition setDefaultPaymentMethod :: "'s Gateway \<Rightarrow> string \<Rightarrow> string \<Rightarrow> 's world \<Rightarrow> error option \<times> 's world" where
  "setDefaultPaymentMethod gw customerID paymentMethodID w =
     (let w0 = PrintInfoWithContext ''Setting default payment method for customer'' w;
          params = \<lparr>cp_Description = None, cp_Metadata = [],
                    cp_DefaultPaymentMethod = Some paymentMethodID\<rparr>
      in case request (Call_customer_Update customerID params)
                (customer_Update gw customerID params) w0 of
           (Some err, w1) \<Rightarrow> (Some err, PrintErrorWithContext err w1)
         | (None, w1) \<Rightarrow>
             (None, PrintInfoWithContext ''Default payment method set successfully'' w1))"

text \<open>The parameters of the subscription-creation request (step 7 of the source).\<close>

definition subscription_params :: "string \<Rightarrow> string \<Rightarrow> stripe_SubscriptionParams" where
  "subscription_params customerID stripePrice =
     \<lparr>sp_Customer = Some customerID,
      sp_Items = [stripePrice],
      sp_PaymentBehavior = Some ''default_incomplete'',
      sp_SaveDefaultPaymentMethod = Some ''on_subscription'',
      sp_Expand = [''latest_invoice.payment_intent'']\<rparr>"

definition CreateSubscription :: "'s Gateway \<Rightarrow> Context \<Rightarrow> int \<Rightarrow> string \<Rightarrow> 's world \<Rightarrow> (string \<times> Status) \<times> 's world" where
  "CreateSubscription gw ctx planID paymentMethodID w =
     (case getUserFromContext ctx of
        Inl err \<Rightarrow> (('''', STATUS_INVALID_USER), PrintErrorWithContext err w)
      | Inr userID \<Rightarrow>
          (let userIDStr = FormatInt userID;
               stripePrice = mapPlanIDToStripePrice planID
           in if stripePrice = '''' then
                (('''', STATUS_INVALID_PLAN),
                 PrintErrorWithContext (''invalid plan ID: '' @ FormatInt planID) w)
              else if paymentMethodID = '''' then
                (('''', STATUS_INVALID_PAYMENT_METHOD),
                 PrintErrorWithContext ''payment method ID is required'' w)
              else
                (let w0 = PrintInfoWithContext ''Starting subscription creation process'' w in
                 case getOrCreateCustomer gw userIDStr w0 of
                   (Inl err, w1) \<Rightarrow>
                     (('''', STATUS_INTERNAL_ERROR), PrintErrorWithContext err w1)
                 | (Inr customerID, w1) \<Rightarrow>
                     (case attachPaymentMethod gw customerID paymentMethodID w1 of
                        (Some err, w2) \<Rightarrow>
                          (('''', STATUS_INVALID_PAYMENT_METHOD), PrintErrorWithContext err w2)
                      | (None, w2) \<Rightarrow>
                          (let w3 =
                                 (case setDefaultPaymentMethod gw customerID paymentMethodID w2 of
                                    (Some err, w') \<Rightarrow> PrintErrorWithContext err w'
                                  | (None, w') \<Rightarrow> w');
                               params = subscription_params customerID stripePrice
                           in case request (Call_subscription_New params)
                                     (subscription_New gw params) w3 of
                                (Inl err, w4) \<Rightarrow>
                                  (('''', STATUS_INTERNAL_ERROR), PrintErrorWithContext err w4)
                              | (Inr subscription, w4) \<Rightarrow>
                                  ((sub_ID subscription, STATUS_OK),
                                   PrintInfoWithContext ''Subscription created successfully'' w4))))))"

definition CancelSubscription :: "'s Gateway \<Rightarrow> string \<Rightarrow> 's world \<Rightarrow> Status \<times> 's world" where
  "CancelSubscription gw stripeSubID w =
     (if stripeSubID = '''' then
        (STATUS_INTERNAL_ERROR, PrintErrorWithContext ''subscription ID is required'' w)
      else
        (let w0 = PrintInfoWithContext ''Starting subscription cancellation process'' w in
         case request (Call_subscription_Get stripeSubID) (subscription_Get gw stripeSubID) w0 of
           (Inl err, w1) \<Rightarrow> (STATUS_INTERNAL_ERROR, PrintErrorWithContext err w1)
         | (Inr existingSub, w1) \<Rightarrow>
             (if sub_Status existingSub = SubscriptionStatusCanceled then
                (STATUS_OK, PrintInfoWithContext ''Subscription is already cancelled'' w1)
              else
                (case request (Call_subscription_Cancel stripeSubID)
                        (subscription_Cancel gw stripeSubID) w1 of
                   (Inl err, w2) \<Rightarrow> (STATUS_INTERNAL_ERROR, PrintErrorWithContext err w2)
                 | (Inr subscription, w2) \<Rightarrow>
                     (if sub_Status subscription = SubscriptionStatusCanceled then
                        (STATUS_OK,
                         PrintInfoWithContext ''Subscription cancelled successfully'' w2)
                      else
                        (STATUS_INTERNAL_ERROR,
                         PrintErrorWithContext
                           (''subscription not cancelled, current status: ''
                              @ sub_Status subscription) w2))))))"

text \<open>
  \<open>GetSubscription\<close>. \<open>endDate\<close> is the value of
  \<open>time.Now().AddDate(0, 1, 0).Unix()\<close> at the call. Dereferencing a nil \<open>Items\<close>, a nil
  first item or a nil \<open>Price\<close> panics.
\<close>

datatype panic = NilPointerDereference

definition GetSubscription :: "'s Gateway \<Rightarrow> int \<Rightarrow> string \<Rightarrow> 's world \<Rightarrow> (panic + data_Subscription) \<times> 's world" where
  "GetSubscription gw endDate stripeSubID w =
     (if stripeSubID = '''' then
        (Inr empty_Subscription, PrintErrorWithContext ''subscription ID is required'' w)
      else
        (let w0 = PrintInfoWithContext ''Retrieving subscription details'' w in
         case request (Call_subscription_Get stripeSubID) (subscription_Get gw stripeSubID) w0 of
           (Inl err, w1) \<Rightarrow> (Inr empty_Subscription, PrintErrorWithContext err w1)
         | (Inr subscription, w1) \<Rightarrow>
             (case sub_Items subscription of
                None \<Rightarrow> (Inl NilPointerDereference, w1)
              | Some [] \<Rightarrow>
                  (Inr empty_Subscription,
                   PrintErrorWithContext ''subscription has no items'' w1)
              | Some (None # _) \<Rightarrow> (Inl NilPointerDereference, w1)
              | Some (Some item # _) \<Rightarrow>
                  (case item_Price item of
                     None \<Rightarrow> (Inl NilPointerDereference, w1)
                   | Some price \<Rightarrow>
                       (let priceID = price_ID price;
                            result =
                              \<lparr>ID = sub_ID subscription,
                               PlanID = priceID,
                               StripeSubID = stripeSubID,
                               Status = getPaymentStatusFromStripe (sub_Status subscription),
                               CurrentPeriodEnd = endDate\<rparr>
                        in (Inr result,
                            PrintInfoWithContext
                              ''Subscription details retrieved successfully'' w1))))))"

section \<open>The Transport Adapter\<close>

subsection \<open>Parsing decimal integers\<close>

text \<open>
  \<open>strconv.ParseInt(s, 10, bitSize)\<close> of Go's standard library, for base 10. Its
  unsigned core reads the bytes from left to right and returns at the first byte that is
  not a digit (value 0, syntax error) or at the first digit that takes the number beyond
  \<open>maxVal = 2 ^ bitSize - 1\<close> (value \<open>maxVal\<close>, range error), whichever comes first. The
  accumulator is a \<open>uint64\<close>: \<open>cutoff\<close> is the least number whose tenfold exceeds
  \<open>2 ^ 64 - 1\<close>, and the addition of the digit wraps modulo \<open>2 ^ 64\<close>.
\<close>

datatype NumError = ErrSyntax | ErrRange

definition is_digit :: "char \<Rightarrow> bool" where
  "is_digit c = ((48::nat) \<le> of_char c \<and> of_char c \<le> (57::nat))"

definition digit_value :: "char \<Rightarrow> nat" where
  "digit_value c = of_char c - 48"

definition maxUint64 :: nat where
  "maxUint64 = 2 ^ 64 - 1"

fun ParseUint_loop :: "nat \<Rightarrow> nat \<Rightarrow> string \<Rightarrow> nat \<times> NumError option" where
  "ParseUint_loop maxVal n [] = (n, None)"
| "ParseUint_loop maxVal n (c # cs) =
     (if \<not> is_digit c then (0, Some ErrSyntax)
      else if n \<ge> maxUint64 div 10 + 1 then (maxVal, Some ErrRange)
      else
        (let n10 = n * 10;
             n1 = (n10 + digit_value c) mod 2 ^ 64
         in if n1 < n10 \<or> n1 > maxVal then (maxVal, Some ErrRange)
            else ParseUint_loop maxVal n1 cs))"

definition ParseUint :: "string \<Rightarrow> nat \<Rightarrow> nat \<times> NumError option" where
  "ParseUint s bitSize =
     (if s = '''' then (0, Some ErrSyntax) else ParseUint_loop (2 ^ bitSize - 1) 0 s)"

text \<open>
  \<open>ParseInt\<close> picks off a leading sign, parses the rest unsigned, returns 0 on a syntax
  error, and otherwise checks the magnitude against \<open>2 ^ (bitSize - 1)\<close>: out of range,
  the result is the bound of that sign together with a range error.
\<close>

definition ParseInt :: "string \<Rightarrow> nat \<Rightarrow> int \<times> NumError option" where
  "ParseInt s bitSize =
     (case s of
        [] \<Rightarrow> (0, Some ErrSyntax)
      | c # cs \<Rightarrow>
          (let neg = (c = CHR ''-'');
               s1 = (if c = CHR ''+'' \<or> c = CHR ''-'' then cs else s);
               cutoff = (2::nat) ^ (bitSize - 1)
           in case ParseUint s1 bitSize of
                (un, Some ErrSyntax) \<Rightarrow> (0, Some ErrSyntax)
              | (un, _) \<Rightarrow>
                  (if \<not> neg \<and> un \<ge> cutoff then (int cutoff - 1, Some ErrRange)
                   else if neg \<and> un > cutoff then (- int cutoff, Some ErrRange)
                   else (if neg then - int un else int un, None))))"

text \<open>The conversion \<open>int32(x)\<close> of an \<open>int64\<close>: the low 32 bits, read as signed.\<close>

definition int32 :: "int \<Rightarrow> int" where
  "int32 x = (x + 2 ^ 31) mod 2 ^ 32 - 2 ^ 31"

text \<open>
  A string is decimal-numeric when it is an optional sign followed by one or more
  decimal digits.
\<close>

definition is_decimal :: "string \<Rightarrow> bool" where
  "is_decimal s =
     (case s of
        [] \<Rightarrow> False
      | c # cs \<Rightarrow>
          (let ds = (if c = CHR ''+'' \<or> c = CHR ''-'' then cs else s)
           in ds \<noteq> [] \<and> list_all is_digit ds))"

text \<open>
  The leading digits of a string are the decimal digits it starts with after an optional
  sign; their decimal value is read most significant digit first, and is 0 when there is
  none.
\<close>

definition strip_sign :: "string \<Rightarrow> string" where
  "strip_sign s =
     (case s of
        [] \<Rightarrow> []
      | c # cs \<Rightarrow> (if c = CHR ''+'' \<or> c = CHR ''-'' then cs else s))"

definition leading_digits :: "string \<Rightarrow> string" where
  "leading_digits s = takeWhile is_digit (strip_sign s)"

definition decimal_value :: "string \<Rightarrow> nat" where
  "decimal_value ds = foldl (\<lambda>a c. a * 10 + digit_value c) 0 ds"

definition has_minus :: "string \<Rightarrow> bool" where
  "has_minus s = (case s of [] \<Rightarrow> False | c # cs \<Rightarrow> c = CHR ''-'')"

subsection \<open>The GetSubscription handler\<close>

text \<open>The subscription message of the response.\<close>

record pb_Subscription =
  Id :: int
  PlanId :: int
  StripeSubscriptionId :: string
  pb_Status :: SubscriptionStatus
  pb_CurrentPeriodEnd :: int

text \<open>
  The handler returns a response or an error; a panic of the orchestrator passes through.
  The error of the second \<open>ParseInt\<close> is assigned and never read.
\<close>

definition server_GetSubscription :: "'s Gateway \<Rightarrow> int \<Rightarrow> string \<Rightarrow> 's world \<Rightarrow> (panic + (NumError + pb_Subscription)) \<times> 's world" where
  "server_GetSubscription gw endDate stripeSubID w =
     (case GetSubscription gw endDate stripeSubID w of
        (Inl p, w') \<Rightarrow> (Inl p, w')
      | (Inr subscription, w') \<Rightarrow>
          (case ParseInt (ID subscription) 64 of
             (subId, Some err) \<Rightarrow> (Inr (Inl err), w')
           | (subId, None) \<Rightarrow>
               (case ParseInt (PlanID subscription) 32 of
                  (planID, err) \<Rightarrow>
                    (Inr (Inr \<lparr>Id = subId,
                               PlanId = int32 planID,
                               StripeSubscriptionId = stripeSubID,
                               pb_Status = Status subscription,
                               pb_CurrentPeriodEnd = CurrentPeriodEnd subscription\<rparr>),
                     w'))))"

section \<open>An in-memory processor\<close>

text \<open>
  A small processor on which the operations can be run from a concrete world. Like the
  real processor it assigns the identifiers of the objects it creates (\<open>cus_1\<close>,
  \<open>cus_2\<close>, ... and \<open>sub_1\<close>, \<open>sub_2\<close>, ...), fetches a customer or a subscription by that
  identifier, and refuses an identifier it does not know. A created subscription starts
  in the status \<open>incomplete\<close>; cancelling sets the status \<open>canceled\<close>.
\<close>

record mem =
  mem_customers :: "(string \<times> (string \<times> string) list) list"
  mem_subscriptions :: "(string \<times> stripe_Subscription) list"

definition mem_customer_Get :: "string \<Rightarrow> mem \<Rightarrow> (error + stripe_Customer option) \<times> mem" where
  "mem_customer_Get oid s =
     (case map_of (mem_customers s) oid of
        None \<Rightarrow> (Inl (''No such customer: '' @ oid), s)
      | Some _ \<Rightarrow> (Inr (Some \<lparr>customer_ID = oid\<rparr>), s))"

definition mem_customer_New :: "stripe_CustomerParams \<Rightarrow> mem \<Rightarrow> (error + stripe_Customer) \<times> mem" where
  "mem_customer_New params s =
     (let oid = ''cus_'' @ FormatUint (length (mem_customers s) + 1)
      in (Inr \<lparr>customer_ID = oid\<rparr>,
          s\<lparr>mem_customers := mem_customers s @ [(oid, cp_Metadata params)]\<rparr>))"

definition mem_customer_Update :: "string \<Rightarrow> stripe_CustomerParams \<Rightarrow> mem \<Rightarrow> error option \<times> mem" where
  "mem_customer_Update oid params s =
     (case map_of (mem_customers s) oid of
        None \<Rightarrow> (Some (''No such customer: '' @ oid), s)
      | Some _ \<Rightarrow> (None, s))"

definition mem_paymentmethod_Attach :: "string \<Rightarrow> string \<Rightarrow> mem \<Rightarrow> error option \<times> mem" where
  "mem_paymentmethod_Attach paymentMethodID customerID s =
     (case map_of (mem_customers s) customerID of
        None \<Rightarrow> (Some (''No such customer: '' @ customerID), s)
      | Some _ \<Rightarrow> (None, s))"

definition mem_subscription_New :: "stripe_SubscriptionParams \<Rightarrow> mem \<Rightarrow> (error + stripe_Subscription) \<times> mem" where
  "mem_subscription_New params s =
     (let oid = ''sub_'' @ FormatUint (length (mem_subscriptions s) + 1);
          sub = \<lparr>sub_ID = oid, sub_Status = ''incomplete'',
                 sub_Items =
                   Some (map (\<lambda>p. Some \<lparr>item_Price = Some \<lparr>price_ID = p\<rparr>\<rparr>) (sp_Items params)),
                 sub_CanceledAt = 0\<rparr>
      in (Inr sub, s\<lparr>mem_subscriptions := mem_subscriptions s @ [(oid, sub)]\<rparr>))"

definition mem_subscription_Get :: "string \<Rightarrow> mem \<Rightarrow> (error + stripe_Subscription) \<times> mem" where
  "mem_subscription_Get oid s =
     (case map_of (mem_subscriptions s) oid of
        None \<Rightarrow> (Inl (''No such subscription: '' @ oid), s)
      | Some sub \<Rightarrow> (Inr sub, s))"

definition mem_subscription_Cancel :: "string \<Rightarrow> mem \<Rightarrow> (error + stripe_Subscription) \<times> mem" where
  "mem_subscription_Cancel oid s =
     (case map_of (mem_subscriptions s) oid of
        None \<Rightarrow> (Inl (''No such subscription: '' @ oid), s)
      | Some sub \<Rightarrow>
          (let sub' = sub\<lparr>sub_Status := SubscriptionStatusCanceled\<rparr>
           in (Inr sub',
               s\<lparr>mem_subscriptions :=
                   map (\<lambda>(k, v). if k = oid then (k, sub') else (k, v)) (mem_subscriptions s)\<rparr>)))"

definition mem_gateway :: "mem Gateway" where
  "mem_gateway =
     \<lparr>customer_Get = mem_customer_Get,
      customer_New = mem_customer_New,
      customer_Update = mem_customer_Update,
      paymentmethod_Attach = mem_paymentmethod_Attach,
      subscription_New = mem_subscription_New,
      subscription_Get = mem_subscription_Get,
      subscription_Cancel = mem_subscription_Cancel\<rparr>"

text \<open>The world at start: an empty processor, no request issued, nothing logged.\<close>

definition world0 :: "mem world" where
  "world0 = \<lparr>proc = \<lparr>mem_customers = [], mem_subscriptions = []\<rparr>, calls = [], logged = []\<rparr>"

text \<open>
  A world in which the processor holds customer \<open>cus_1\<close> of caller 42 and its
  subscription \<open>sub_1\<close> to the basic plan, not yet confirmed.
\<close>

definition world1 :: "mem world" where
  "world1 =
     \<lparr>proc =
        \<lparr>mem_customers = [(''cus_1'', [(''user_id'', ''42'')])],
         mem_subscriptions =
           [(''sub_1'',
             \<lparr>sub_ID = ''sub_1'', sub_Status = ''incomplete'',
              sub_Items = Some [Some \<lparr>item_Price = Some \<lparr>price_ID = ''price_basic_123''\<rparr>\<rparr>],
              sub_CanceledAt = 0\<rparr>)]\<rparr>,
      calls = [], logged = []\<rparr>"

text \<open>
  A world in which the processor holds three active subscriptions whose identifiers are
  numerals: \<open>123\<close> on the price \<open>price_basic_123\<close>, \<open>124\<close> on a price whose identifier
  is eleven nines followed by a letter, and \<open>125\<close> on a price whose identifier is the
  number 3000000000 followed by a letter.
\<close>

definition world_numeric :: "mem world" where
  "world_numeric =
     \<lparr>proc =
        \<lparr>mem_customers = [],
         mem_subscriptions =
           [(''123'',
             \<lparr>sub_ID = ''123'', sub_Status = ''active'',
              sub_Items = Some [Some \<lparr>item_Price = Some \<lparr>price_ID = ''price_basic_123''\<rparr>\<rparr>],
              sub_CanceledAt = 0\<rparr>),
            (''124'',
             \<lparr>sub_ID = ''124'', sub_Status = ''active'',
              sub_Items = Some [Some \<lparr>item_Price = Some \<lparr>price_ID = ''99999999999x''\<rparr>\<rparr>],
              sub_CanceledAt = 0\<rparr>),
            (''125'',
             \<lparr>sub_ID = ''125'', sub_Status = ''active'',
              sub_Items = Some [Some \<lparr>item_Price = Some \<lparr>price_ID = ''3000000000x''\<rparr>\<rparr>],
              sub_CanceledAt = 0\<rparr>)]\<rparr>,
      calls = [], logged = []\<rparr>"

text \<open>The same processor, refusing every update of a customer.\<close>

definition mem_gateway_update_fails :: "mem Gateway" where
  "mem_gateway_update_fails =
     mem_gateway\<lparr>customer_Update := \<lambda>oid params s. (Some ''update refused'', s)\<rparr>"

text \<open>
  The same processor, accepting a cancel request without applying it: it answers with
  the subscription as it is.
\<close>

definition mem_gateway_cancel_ineffective :: "mem Gateway" where
  "mem_gateway_cancel_ineffective =
     mem_gateway\<lparr>subscription_Cancel := mem_subscription_Get\<rparr>"

section \<open>Properties\<close>

lemmas stripe_status_defs =
  SubscriptionStatusActive_def SubscriptionStatusCanceled_def
  SubscriptionStatusIncompleteExpired_def SubscriptionStatusUnpaid_def
  SubscriptionStatusTrialing_def

lemmas io_defs = request_def PrintInfoWithContext_def PrintErrorWithContext_def

lemmas mem_defs =
  mem_gateway_def mem_customer_Get_def mem_customer_New_def mem_customer_Update_def
  mem_paymentmethod_Attach_def mem_subscription_New_def mem_subscription_Get_def
  mem_subscription_Cancel_def mem_gateway_update_fails_def mem_gateway_cancel_ineffective_def

lemmas step_defs =
  getOrCreateCustomer_def attachPaymentMethod_def setDefaultPaymentMethod_def
  subscription_params_def getUserFromContext_def mapPlanIDToStripePrice_def

subsection \<open>Evaluating the helpers on the inputs used below\<close>

lemma FormatInt_42: "FormatInt 42 = ''42''"
  by (simp add: FormatInt_def FormatUint.simps digit_char_def)

lemma FormatUint_1: "FormatUint (Suc 0) = ''1''"
  by (simp add: FormatUint.simps digit_char_def)

lemma FormatUint_2: "FormatUint (Suc (Suc 0)) = ''2''"
  by (simp add: FormatUint.simps [of "Suc (Suc 0)"] digit_char_def)

lemmas format_simps = FormatInt_42 FormatUint_1 FormatUint_2

subsection \<open>Customer resolution\<close>

text \<open>
  What \<open>getOrCreateCustomer\<close> does for every processor: the first request is a fetch of
  the customer whose identifier is the stringified identity; when the fetch yields a
  customer, that customer is returned and nothing is created.
\<close>

lemma getOrCreateCustomer_reuses_found:
  assumes "customer_Get gw userID (proc w) = (Inr (Some stripeCustomer), s')"
  shows "fst (getOrCreateCustomer gw userID w) = Inr (customer_ID stripeCustomer)"
    and "calls (snd (getOrCreateCustomer gw userID w)) = calls w @ [Call_customer_Get userID]"
    and "proc (snd (getOrCreateCustomer gw userID w)) = s'"
  using assms by (simp_all add: getOrCreateCustomer_def io_defs Let_def)

text \<open>
  When the fetch fails, the second request creates a customer; the identity travels in
  the description and in the metadata entry \<open>user_id\<close>, and the identifier of the new
  customer is the one the processor answers with.
\<close>

lemma getOrCreateCustomer_creates_when_missing:
  assumes "customer_Get gw userID (proc w) = (Inl err, s')"
    and "customer_New gw
           \<lparr>cp_Description = Some (''Customer for user '' @ userID),
            cp_Metadata = [(''user_id'', userID)],
            cp_DefaultPaymentMethod = None\<rparr> s' = (Inr newCustomer, s'')"
  shows "fst (getOrCreateCustomer gw userID w) = Inr (customer_ID newCustomer)"
    and "calls (snd (getOrCreateCustomer gw userID w)) =
           calls w @ [Call_customer_Get userID,
                      Call_customer_New
                        \<lparr>cp_Description = Some (''Customer for user '' @ userID),
                         cp_Metadata = [(''user_id'', userID)],
                         cp_DefaultPaymentMethod = None\<rparr>]"
  using assms by (simp_all add: getOrCreateCustomer_def io_defs Let_def)

lemma getOrCreateCustomer_twice_on_mem:
  "fst (getOrCreateCustomer mem_gateway (FormatInt 42) world0) = Inr ''cus_1''
   \<and> fst (getOrCreateCustomer mem_gateway (FormatInt 42)
             (snd (getOrCreateCustomer mem_gateway (FormatInt 42) world0))) = Inr ''cus_2''
   \<and> calls (snd (getOrCreateCustomer mem_gateway (FormatInt 42)
               (snd (getOrCreateCustomer mem_gateway (FormatInt 42) world0)))) =
        [Call_customer_Get ''42'',
         Call_customer_New
           \<lparr>cp_Description = Some ''Customer for user 42'',
            cp_Metadata = [(''user_id'', ''42'')], cp_DefaultPaymentMethod = None\<rparr>,
         Call_customer_Get ''42'',
         Call_customer_New
           \<lparr>cp_Description = Some ''Customer for user 42'',
            cp_Metadata = [(''user_id'', ''42'')], cp_DefaultPaymentMethod = None\<rparr>]"
  by (simp add: format_simps getOrCreateCustomer_def io_defs mem_defs world0_def Let_def)

text \<open>
  Claim C1. Customer resolution in CreateSubscription is meant to be idempotent by the
  caller identity: a second invocation with the same identity should reuse the customer
  that the first one created. Evaluated on the in-memory processor, which like the real
  one assigns the identifier of a new customer itself, the code does not do that: the
  first CreateSubscription of caller 42 from the empty world leaves the processor as in
  \<open>world1\<close>, with customer \<open>cus_1\<close> carrying the metadata \<open>user_id = 42\<close>; the second
  CreateSubscription of caller 42 fetches the customer \<open>42\<close> again, does not find it,
  and creates a second customer \<open>cus_2\<close> with the same metadata. The fetch is by
  processor identifier, while the creation request records the identity only in
  description and metadata.
\<close>

theorem CreateSubscription_second_invocation_creates_customer_again:
  "fst (CreateSubscription mem_gateway (Some (Int64Value 42)) 1 ''pm_test'' world0)
     = (''sub_1'', STATUS_OK)
   \<and> proc (snd (CreateSubscription mem_gateway (Some (Int64Value 42)) 1 ''pm_test'' world0))
     = proc world1
   \<and> fst (CreateSubscription mem_gateway (Some (Int64Value 42)) 1 ''pm_test'' world1)
     = (''sub_2'', STATUS_OK)
   \<and> mem_customers
       (proc (snd (CreateSubscription mem_gateway (Some (Int64Value 42)) 1 ''pm_test'' world1)))
     = [(''cus_1'', [(''user_id'', ''42'')]), (''cus_2'', [(''user_id'', ''42'')])]
   \<and> take 2 (calls (snd (CreateSubscription mem_gateway (Some (Int64Value 42)) 1 ''pm_test'' world1)))
     = [Call_customer_Get ''42'',
        Call_customer_New
          \<lparr>cp_Description = Some ''Customer for user 42'',
           cp_Metadata = [(''user_id'', ''42'')], cp_DefaultPaymentMethod = None\<rparr>]"
  by (simp add: format_simps CreateSubscription_def step_defs io_defs mem_defs
        world0_def world1_def Let_def)

subsection \<open>Validation order of CreateSubscription\<close>



text \<open>
  Claim C6. For the empty payment-method token, CreateSubscription with a resolvable
  caller identity and a plan of the catalog returns the pair of the empty string and
  INVALID_PAYMENT_METHOD; it issues no request to the processor (neither to the customer
  endpoints nor to the payment-method attachment) and leaves the processor's state as it
  was.
\<close>

theorem CreateSubscription_empty_payment_method:
  "planID \<in> {1, 2} \<Longrightarrow>
     fst (CreateSubscription gw (Some (Int64Value userID)) planID '''' w)
       = ('''', STATUS_INVALID_PAYMENT_METHOD)
     \<and> calls (snd (CreateSubscription gw (Some (Int64Value userID)) planID '''' w)) = calls w
     \<and> proc (snd (CreateSubscription gw (Some (Int64Value userID)) planID '''' w)) = proc w"
  by (auto simp add: CreateSubscription_def getUserFromContext_def mapPlanIDToStripePrice_def
        PrintErrorWithContext_def Let_def)

theorem CreateSubscription_empty_payment_method_witness:
  "(1::int) \<in> {1, 2}
   \<and> CreateSubscription mem_gateway (Some (Int64Value 42)) 1 '''' world0
     = (('''', STATUS_INVALID_PAYMENT_METHOD),
        world0\<lparr>logged := [(LevelError, ''payment method ID is required'')]\<rparr>)"
  using CreateSubscription_empty_payment_method
          [where planID = 1 and gw = mem_gateway and userID = 42 and w = world0]
  by (simp add: CreateSubscription_def step_defs io_defs world0_def Let_def)

text \<open>
  Claim C8. A failure of the set-default-payment-method step does not abort
  CreateSubscription nor change its outcome: whenever the identity is resolvable, the
  plan is in the catalog, the token is non-empty, customer resolution and payment-method
  attachment succeed, and the processor creates the subscription, CreateSubscription
  returns the processor-assigned subscription identifier and OK, whatever the result
  \<open>r\<close> of setting the default payment method was.
\<close>

theorem CreateSubscription_default_payment_method_not_critical:
  assumes "planID \<in> {1, 2}"
    and "paymentMethodID \<noteq> ''''"
    and "getOrCreateCustomer gw (FormatInt userID)
           (PrintInfoWithContext ''Starting subscription creation process'' w)
         = (Inr customerID, w1)"
    and "attachPaymentMethod gw customerID paymentMethodID w1 = (None, w2)"
    and "setDefaultPaymentMethod gw customerID paymentMethodID w2 = (r, w3)"
    and "subscription_New gw
           (subscription_params customerID (mapPlanIDToStripePrice planID)) (proc w3)
         = (Inr subscription, s4)"
  shows "fst (CreateSubscription gw (Some (Int64Value userID)) planID paymentMethodID w)
         = (sub_ID subscription, STATUS_OK)"
  using assms
  by (auto simp add: CreateSubscription_def getUserFromContext_def mapPlanIDToStripePrice_def
        io_defs Let_def
      split: option.splits)

theorem CreateSubscription_default_payment_method_not_critical_witness:
  "(LevelError, ''update refused'')
     \<in> set (logged (snd (CreateSubscription mem_gateway_update_fails
                             (Some (Int64Value 42)) 1 ''pm_test'' world0)))
   \<and> fst (CreateSubscription mem_gateway_update_fails (Some (Int64Value 42)) 1 ''pm_test'' world0)
     = (''sub_1'', STATUS_OK)"
proof -
  let ?gw = mem_gateway_update_fails
  let ?sub = "\<lparr>sub_ID = ''sub_1'', sub_Status = ''incomplete'',
               sub_Items = Some [Some \<lparr>item_Price = Some \<lparr>price_ID = ''price_basic_123''\<rparr>\<rparr>],
               sub_CanceledAt = 0\<rparr>"
  define w1 where "w1 = snd (getOrCreateCustomer ?gw (FormatInt 42)
                     (PrintInfoWithContext ''Starting subscription creation process'' world0))"
  define w2 where "w2 = snd (attachPaymentMethod ?gw ''cus_1'' ''pm_test'' w1)"
  define w3 where "w3 = snd (setDefaultPaymentMethod ?gw ''cus_1'' ''pm_test'' w2)"
  have p1: "proc w1 = \<lparr>mem_customers = [(''cus_1'', [(''user_id'', ''42'')])],
                        mem_subscriptions = []\<rparr>"
    by (simp add: w1_def format_simps step_defs io_defs mem_defs world0_def Let_def)
  have p2: "proc w2 = proc w1"
    by (simp add: w2_def p1 step_defs io_defs mem_defs Let_def)
  have p3: "proc w3 = proc w1"
    by (simp add: w3_def p2 p1 step_defs io_defs mem_defs Let_def)
  have h1: "(1::int) \<in> {1, 2}" and h2: "''pm_test'' \<noteq> ''''"
    by simp_all
  have h3: "getOrCreateCustomer ?gw (FormatInt 42)
              (PrintInfoWithContext ''Starting subscription creation process'' world0)
            = (Inr ''cus_1'', w1)"
    by (simp add: w1_def format_simps step_defs io_defs mem_defs world0_def Let_def)
  have h4: "attachPaymentMethod ?gw ''cus_1'' ''pm_test'' w1 = (None, w2)"
    by (simp add: w2_def p1 step_defs io_defs mem_defs Let_def)
  have h5: "setDefaultPaymentMethod ?gw ''cus_1'' ''pm_test'' w2 = (Some ''update refused'', w3)"
    by (simp add: w3_def step_defs io_defs mem_defs Let_def)
  have h6: "subscription_New ?gw (subscription_params ''cus_1'' (mapPlanIDToStripePrice 1)) (proc w3)
            = (Inr ?sub, (proc w1)\<lparr>mem_subscriptions := [(''sub_1'', ?sub)]\<rparr>)"
    by (simp add: p3 p1 format_simps step_defs mem_defs Let_def)
  have "fst (CreateSubscription ?gw (Some (Int64Value 42)) 1 ''pm_test'' world0)
        = (sub_ID ?sub, STATUS_OK)"
    by (rule CreateSubscription_default_payment_method_not_critical [OF h1 h2 h3 h4 h5 h6])
  moreover have "(LevelError, ''update refused'')
     \<in> set (logged (snd (CreateSubscription ?gw (Some (Int64Value 42)) 1 ''pm_test'' world0)))"
    by (simp add: format_simps CreateSubscription_def step_defs io_defs mem_defs world0_def Let_def)
  ultimately show ?thesis by simp
qed

subsection \<open>CancelSubscription\<close>

lemma CancelSubscription_OK_nonempty:
  "CancelSubscription gw stripeSubID w = (STATUS_OK, w1) \<Longrightarrow> stripeSubID \<noteq> ''''"
  by (auto simp add: CancelSubscription_def)

lemma CancelSubscription_already_canceled:
  assumes "stripeSubID \<noteq> ''''"
    and "subscription_Get gw stripeSubID (proc w) = (Inr existingSub, s')"
    and "sub_Status existingSub = SubscriptionStatusCanceled"
  shows "CancelSubscription gw stripeSubID w =
           (STATUS_OK,
            w\<lparr>proc := s',
              calls := calls w @ [Call_subscription_Get stripeSubID],
              logged := logged w @
                [(LevelInfo, ''Starting subscription cancellation process''),
                 (LevelInfo, ''Subscription is already cancelled'')]\<rparr>)"
  using assms by (simp add: CancelSubscription_def io_defs Let_def)

text \<open>
  Claim C3. CancelSubscription is idempotent. For every subscription identifier for which
  a subscription is fetched (the identifier is non-empty, so that the fetch is issued, and
  the processor answers with a subscription): if the fetched subscription is already in
  the processor status CANCELED, the operation returns OK and the only request it issues
  is that fetch, so no cancel request is made. Hence, when a first call on an identifier
  has returned OK and the processor then reports the subscription as CANCELED, a second
  call on the same identifier returns OK as well and issues the fetch only.
\<close>

theorem CancelSubscription_idempotent:
  "(stripeSubID \<noteq> ''''
      \<and> subscription_Get gw stripeSubID (proc w) = (Inr existingSub, s')
      \<and> sub_Status existingSub = SubscriptionStatusCanceled
    \<longrightarrow> fst (CancelSubscription gw stripeSubID w) = STATUS_OK
        \<and> calls (snd (CancelSubscription gw stripeSubID w))
            = calls w @ [Call_subscription_Get stripeSubID]
        \<and> proc (snd (CancelSubscription gw stripeSubID w)) = s')
   \<and> (CancelSubscription gw stripeSubID w = (STATUS_OK, w1)
      \<and> subscription_Get gw stripeSubID (proc w1) = (Inr sub1, s2)
      \<and> sub_Status sub1 = SubscriptionStatusCanceled
    \<longrightarrow> fst (CancelSubscription gw stripeSubID w1) = STATUS_OK
        \<and> calls (snd (CancelSubscription gw stripeSubID w1))
            = calls w1 @ [Call_subscription_Get stripeSubID]
        \<and> Call_subscription_Cancel stripeSubID
            \<notin> set (drop (length (calls w1)) (calls (snd (CancelSubscription gw stripeSubID w1)))))"
proof -
  have a: "fst (CancelSubscription gw stripeSubID w) = STATUS_OK
        \<and> calls (snd (CancelSubscription gw stripeSubID w))
            = calls w @ [Call_subscription_Get stripeSubID]
        \<and> proc (snd (CancelSubscription gw stripeSubID w)) = s'"
    if "stripeSubID \<noteq> ''''"
      and "subscription_Get gw stripeSubID (proc w) = (Inr existingSub, s')"
      and "sub_Status existingSub = SubscriptionStatusCanceled"
    using CancelSubscription_already_canceled [OF that] by simp
  have b: "fst (CancelSubscription gw stripeSubID w1) = STATUS_OK
        \<and> calls (snd (CancelSubscription gw stripeSubID w1))
            = calls w1 @ [Call_subscription_Get stripeSubID]
        \<and> Call_subscription_Cancel stripeSubID
            \<notin> set (drop (length (calls w1)) (calls (snd (CancelSubscription gw stripeSubID w1))))"
    if first: "CancelSubscription gw stripeSubID w = (STATUS_OK, w1)"
      and fetch: "subscription_Get gw stripeSubID (proc w1) = (Inr sub1, s2)"
      and canceled: "sub_Status sub1 = SubscriptionStatusCanceled"
  proof -
    from first have "stripeSubID \<noteq> ''''"
      by (rule CancelSubscription_OK_nonempty)
    from CancelSubscription_already_canceled [OF this fetch canceled]
    show ?thesis by simp
  qed
  from a b show ?thesis by blast
qed

theorem CancelSubscription_idempotent_witness:
  "fst (CancelSubscription mem_gateway ''sub_1'' world1) = STATUS_OK
   \<and> calls (snd (CancelSubscription mem_gateway ''sub_1'' world1))
     = [Call_subscription_Get ''sub_1'', Call_subscription_Cancel ''sub_1'']
   \<and> fst (CancelSubscription mem_gateway ''sub_1''
             (snd (CancelSubscription mem_gateway ''sub_1'' world1))) = STATUS_OK
   \<and> calls (snd (CancelSubscription mem_gateway ''sub_1''
             (snd (CancelSubscription mem_gateway ''sub_1'' world1))))
     = [Call_subscription_Get ''sub_1'', Call_subscription_Cancel ''sub_1'',
        Call_subscription_Get ''sub_1'']"
proof -
  let ?sub = "\<lparr>sub_ID = ''sub_1'', sub_Status = ''canceled'',
               sub_Items = Some [Some \<lparr>item_Price = Some \<lparr>price_ID = ''price_basic_123''\<rparr>\<rparr>],
               sub_CanceledAt = 0\<rparr>"
  let ?s = "\<lparr>mem_customers = [(''cus_1'', [(''user_id'', ''42'')])],
             mem_subscriptions = [(''sub_1'', ?sub)]\<rparr>"
  define w1 where "w1 = snd (CancelSubscription mem_gateway ''sub_1'' world1)"
  have first: "CancelSubscription mem_gateway ''sub_1'' world1 = (STATUS_OK, w1)"
    by (simp add: w1_def CancelSubscription_def io_defs mem_defs world1_def
          stripe_status_defs Let_def)
  have p1: "proc w1 = ?s" and c1: "calls w1
     = [Call_subscription_Get ''sub_1'', Call_subscription_Cancel ''sub_1'']"
    by (simp_all add: w1_def CancelSubscription_def io_defs mem_defs world1_def
          stripe_status_defs Let_def)
  have fetch: "subscription_Get mem_gateway ''sub_1'' (proc w1) = (Inr ?sub, ?s)"
    by (simp add: p1 mem_defs)
  have canceled: "sub_Status ?sub = SubscriptionStatusCanceled"
    by (simp add: stripe_status_defs)
  from CancelSubscription_idempotent
         [where gw = mem_gateway and stripeSubID = "''sub_1''" and w = world1 and ?w1.0 = w1
            and ?sub1.0 = ?sub and ?s2.0 = ?s]
       first fetch canceled
  have "fst (CancelSubscription mem_gateway ''sub_1'' w1) = STATUS_OK
        \<and> calls (snd (CancelSubscription mem_gateway ''sub_1'' w1))
            = calls w1 @ [Call_subscription_Get ''sub_1'']"
    by blast
  with first c1 show ?thesis
    by (simp add: w1_def [symmetric])
qed

text \<open>
  Claim C5. For every non-empty subscription identifier whose fetched subscription is not
  already CANCELED: if the processor's cancel request succeeds and answers with a
  subscription, CancelSubscription returns INTERNAL_ERROR when that subscription's status
  is other than CANCELED, and returns OK exactly when it is CANCELED.
\<close>

theorem CancelSubscription_verifies_cancellation:
  assumes "stripeSubID \<noteq> ''''"
    and "subscription_Get gw stripeSubID (proc w) = (Inr existingSub, s1)"
    and "sub_Status existingSub \<noteq> SubscriptionStatusCanceled"
    and "subscription_Cancel gw stripeSubID s1 = (Inr subscription, s2)"
  shows "(sub_Status subscription \<noteq> SubscriptionStatusCanceled
            \<longrightarrow> fst (CancelSubscription gw stripeSubID w) = STATUS_INTERNAL_ERROR)
         \<and> (fst (CancelSubscription gw stripeSubID w) = STATUS_OK
            \<longleftrightarrow> sub_Status subscription = SubscriptionStatusCanceled)
         \<and> calls (snd (CancelSubscription gw stripeSubID w))
             = calls w @ [Call_subscription_Get stripeSubID, Call_subscription_Cancel stripeSubID]"
  using assms by (simp add: CancelSubscription_def io_defs Let_def)

theorem CancelSubscription_verifies_cancellation_witness:
  "fst (subscription_Cancel mem_gateway_cancel_ineffective ''sub_1'' (proc world1))
     = Inr \<lparr>sub_ID = ''sub_1'', sub_Status = ''incomplete'',
            sub_Items = Some [Some \<lparr>item_Price = Some \<lparr>price_ID = ''price_basic_123''\<rparr>\<rparr>],
            sub_CanceledAt = 0\<rparr>
   \<and> fst (CancelSubscription mem_gateway_cancel_ineffective ''sub_1'' world1)
     = STATUS_INTERNAL_ERROR
   \<and> calls (snd (CancelSubscription mem_gateway_cancel_ineffective ''sub_1'' world1))
     = [Call_subscription_Get ''sub_1'', Call_subscription_Cancel ''sub_1'']"
proof -
  let ?gw = mem_gateway_cancel_ineffective
  let ?sub = "\<lparr>sub_ID = ''sub_1'', sub_Status = ''incomplete'',
               sub_Items = Some [Some \<lparr>item_Price = Some \<lparr>price_ID = ''price_basic_123''\<rparr>\<rparr>],
               sub_CanceledAt = 0\<rparr>"
  have h1: "''sub_1'' \<noteq> ''''" by simp
  have h2: "subscription_Get ?gw ''sub_1'' (proc world1) = (Inr ?sub, proc world1)"
    by (simp add: mem_defs world1_def)
  have h3: "sub_Status ?sub \<noteq> SubscriptionStatusCanceled"
    by (simp add: stripe_status_defs)
  have h4: "subscription_Cancel ?gw ''sub_1'' (proc world1) = (Inr ?sub, proc world1)"
    by (simp add: mem_defs world1_def)
  from CancelSubscription_verifies_cancellation [OF h1 h2 h3 h4] h3 h4
  show ?thesis by (simp add: world1_def)
qed

subsection \<open>GetSubscription\<close>

text \<open>
  Claim C4. The processor-status mapping is a total function that cannot fail: each of the
  five recognised processor statuses (active, canceled, incomplete_expired, unpaid,
  trialing) is mapped to the Lifecycle Status of the same name, and every other processor
  status is mapped to UNSPECIFIED.
\<close>

theorem getPaymentStatusFromStripe_total:
  "getPaymentStatusFromStripe SubscriptionStatusActive = SUBSCRIPTION_STATUS_ACTIVE
   \<and> getPaymentStatusFromStripe SubscriptionStatusCanceled = SUBSCRIPTION_STATUS_CANCELED
   \<and> getPaymentStatusFromStripe SubscriptionStatusIncompleteExpired
       = SUBSCRIPTION_STATUS_INCOMPLETE_EXPIRED
   \<and> getPaymentStatusFromStripe SubscriptionStatusUnpaid = SUBSCRIPTION_STATUS_UNPAID
   \<and> getPaymentStatusFromStripe SubscriptionStatusTrialing = SUBSCRIPTION_STATUS_TRIALING
   \<and> (s \<notin> {SubscriptionStatusActive, SubscriptionStatusCanceled,
             SubscriptionStatusIncompleteExpired, SubscriptionStatusUnpaid,
             SubscriptionStatusTrialing}
        \<longrightarrow> getPaymentStatusFromStripe s = SUBSCRIPTION_STATUS_UNSPECIFIED)"
  by (simp add: getPaymentStatusFromStripe_def stripe_status_defs)

theorem getPaymentStatusFromStripe_total_witness:
  "''past_due'' \<notin> {SubscriptionStatusActive, SubscriptionStatusCanceled,
       SubscriptionStatusIncompleteExpired, SubscriptionStatusUnpaid,
       SubscriptionStatusTrialing}
   \<and> getPaymentStatusFromStripe ''past_due'' = SUBSCRIPTION_STATUS_UNSPECIFIED"
  using getPaymentStatusFromStripe_total [of "''past_due''"]
  by (simp add: stripe_status_defs)

text \<open>
  Claim C7. GetSubscription returns the empty (zero-value) subscription record, as an
  ordinary result and not as an error, in exactly these cases: the identifier is empty,
  the processor's fetch fails, or the fetched subscription has no items. The empty record
  has no field populated.
\<close>

theorem GetSubscription_empty_record:
  "(fst (GetSubscription gw endDate stripeSubID w) = Inr empty_Subscription) =
     (stripeSubID = ''''
      \<or> (\<exists>err. fst (subscription_Get gw stripeSubID (proc w)) = Inl err)
      \<or> (\<exists>subscription.
            fst (subscription_Get gw stripeSubID (proc w)) = Inr subscription
            \<and> sub_Items subscription = Some []))"
  by (auto simp add: GetSubscription_def io_defs Let_def empty_Subscription_def
      split: prod.splits sum.splits option.splits list.splits)

theorem GetSubscription_empty_record_witness:
  "fst (GetSubscription mem_gateway 0 '''' world1) = Inr empty_Subscription
   \<and> fst (subscription_Get mem_gateway ''sub_404'' (proc world1))
     = Inl ''No such subscription: sub_404''
   \<and> fst (GetSubscription mem_gateway 0 ''sub_404'' world1) = Inr empty_Subscription
   \<and> fst (GetSubscription mem_gateway 0 ''sub_1'' world1) \<noteq> Inr empty_Subscription"
  using GetSubscription_empty_record [of mem_gateway 0 "''''" world1]
        GetSubscription_empty_record [of mem_gateway 0 "''sub_404''" world1]
        GetSubscription_empty_record [of mem_gateway 0 "''sub_1''" world1]
  by (simp add: mem_defs world1_def)

subsection \<open>Facts about the parser\<close>

lemma ParseUint_loop_ok_digits:
  "ParseUint_loop m n cs = (v, None) \<Longrightarrow> list_all is_digit cs"
  by (induction cs arbitrary: n) (auto simp add: Let_def split: if_splits)

lemma ParseUint_loop_range_value:
  "ParseUint_loop m n cs = (v, Some ErrRange) \<Longrightarrow> v = m"
  by (induction cs arbitrary: n) (auto simp add: Let_def split: if_splits)

lemma cutoff_below_maxVal:
  assumes "2 \<le> b"
  shows "(2::nat) ^ (b - 1) < 2 ^ b - 1"
proof -
  from assms obtain k where b: "b = Suc (Suc k)"
    by (metis Suc_le_D numeral_2_eq_2 Suc_le_mono le_Suc_ex add_Suc)
  have "(1::nat) \<le> 2 ^ k" by simp
  then have "2 * 2 ^ k < 4 * 2 ^ k - (1::nat)" by linarith
  then show ?thesis unfolding b by simp
qed

text \<open>A string that \<open>ParseInt\<close> accepts is decimal-numeric.\<close>

lemma ParseInt_ok_decimal:
  assumes "2 \<le> b" and "snd (ParseInt s b) = None"
  shows "is_decimal s"
proof (cases s)
  case Nil
  with assms(2) show ?thesis by (simp add: ParseInt_def)
next
  case (Cons c cs)
  let ?s1 = "if c = CHR ''+'' \<or> c = CHR ''-'' then cs else c # cs"
  obtain un r where u: "ParseUint ?s1 b = (un, r)"
    by (cases "ParseUint ?s1 b") auto
  have "r = None"
  proof (rule ccontr)
    assume "r \<noteq> None"
    then obtain e where e: "r = Some e" by auto
    show False
    proof (cases e)
      case ErrSyntax
      with assms(2) Cons u e show False
        by (simp add: ParseInt_def Let_def)
    next
      case ErrRange
      with u e have "ParseUint_loop (2 ^ b - 1) 0 ?s1 = (un, Some ErrRange)"
        by (auto simp add: ParseUint_def split: if_splits)
      then have "un = 2 ^ b - 1"
        by (rule ParseUint_loop_range_value)
      with cutoff_below_maxVal [OF assms(1)] have "2 ^ (b - 1) < un" by simp
      with assms(2) Cons u e ErrRange show False
        by (auto simp add: ParseInt_def Let_def split: if_splits)
    qed
  qed
  with u have "?s1 \<noteq> []" and "ParseUint_loop (2 ^ b - 1) 0 ?s1 = (un, None)"
    by (auto simp add: ParseUint_def split: if_splits)
  then have "?s1 \<noteq> [] \<and> list_all is_digit ?s1"
    using ParseUint_loop_ok_digits by blast
  with Cons show ?thesis
    by (simp add: is_decimal_def Let_def)
qed

text \<open>The value that comes with an error: 0 with a syntax error, a bound with a range error.\<close>

lemma ParseInt_error_value:
  "ParseInt s b = (v, Some e) \<Longrightarrow>
     (e = ErrSyntax \<longrightarrow> v = 0)
     \<and> (e = ErrRange \<longrightarrow> v = 2 ^ (b - 1) - 1 \<or> v = - (2 ^ (b - 1)))"
  by (cases s)
     (auto simp add: ParseInt_def Let_def
           split: if_splits prod.splits option.splits NumError.splits)

text \<open>
  The unsigned core at 32 bits, in closed form: a range error as soon as the digits read
  denote a number above 4294967295, else the number when every byte is a digit, else a
  syntax error.
\<close>

lemma digit_value_le: "is_digit c \<Longrightarrow> digit_value c \<le> 9"
  unfolding is_digit_def digit_value_def by arith

lemma foldl_digits_mono:
  "n \<le> foldl (\<lambda>a c. a * 10 + digit_value c) n ds"
proof (induction ds arbitrary: n)
  case Nil
  show ?case by simp
next
  case (Cons c ds)
  have "n \<le> n * 10 + digit_value c" by simp
  also have "\<dots> \<le> foldl (\<lambda>a c. a * 10 + digit_value c) (n * 10 + digit_value c) ds"
    by (rule Cons.IH)
  finally show ?case by simp
qed

lemma ParseUint_loop_32:
  assumes "n \<le> 4294967295"
  shows "ParseUint_loop 4294967295 n cs =
           (if 4294967295 < foldl (\<lambda>a c. a * 10 + digit_value c) n (takeWhile is_digit cs)
              then (4294967295, Some ErrRange)
            else if list_all is_digit cs
              then (foldl (\<lambda>a c. a * 10 + digit_value c) n cs, None)
            else (0, Some ErrSyntax))"
  using assms
proof (induction cs arbitrary: n)
  case Nil
  then show ?case by simp
next
  case (Cons c cs)
  show ?case
  proof (cases "is_digit c")
    case False
    with Cons.prems show ?thesis by simp
  next
    case True
    let ?n1 = "n * 10 + digit_value c"
    from True have d: "digit_value c \<le> 9" by (rule digit_value_le)
    with Cons.prems have small: "?n1 < 18446744073709551616" by linarith
    then have m: "?n1 mod 18446744073709551616 = ?n1" by simp
    from Cons.prems have c: "\<not> 1844674407370955162 \<le> n" by linarith
    show ?thesis
    proof (cases "4294967295 < ?n1")
      case big: True
      have "?n1 \<le> foldl (\<lambda>a c. a * 10 + digit_value c) ?n1 (takeWhile is_digit cs)"
        by (rule foldl_digits_mono)
      with big have "4294967295 < foldl (\<lambda>a c. a * 10 + digit_value c) ?n1 (takeWhile is_digit cs)"
        by linarith
      with True big m c show ?thesis
        by (simp add: maxUint64_def Let_def)
    next
      case ok: False
      then have "?n1 \<le> 4294967295" by simp
      from Cons.IH [OF this] True ok m c show ?thesis
        by (simp add: maxUint64_def Let_def)
    qed
  qed
qed

text \<open>What \<open>ParseInt\<close> at 32 bits returns for a string that is not decimal-numeric.\<close>

lemma ParseInt_32_not_decimal:
  assumes "\<not> is_decimal s"
  shows "ParseInt s 32 =
           (if decimal_value (leading_digits s) \<le> 4294967295 then (0, Some ErrSyntax)
            else (if has_minus s then - 2147483648 else 2147483647, Some ErrRange))"
proof (cases s)
  case Nil
  then show ?thesis
    by (simp add: ParseInt_def leading_digits_def strip_sign_def decimal_value_def)
next
  case (Cons c cs)
  let ?s1 = "if c = CHR ''+'' \<or> c = CHR ''-'' then cs else c # cs"
  have s1: "strip_sign s = ?s1"
    by (simp add: strip_sign_def Cons)
  from assms Cons have nd: "?s1 = [] \<or> \<not> list_all is_digit ?s1"
    by (auto simp add: is_decimal_def Let_def split: if_splits)
  have u: "ParseUint ?s1 32 =
             (if 4294967295 < decimal_value (leading_digits s)
                then (4294967295, Some ErrRange) else (0, Some ErrSyntax))"
  proof (cases "?s1 = []")
    case True
    then show ?thesis
      by (simp add: ParseUint_def leading_digits_def s1 decimal_value_def)
  next
    case False
    with nd have "\<not> list_all is_digit ?s1" by simp
    with False ParseUint_loop_32 [of 0 ?s1] show ?thesis
      by (simp add: ParseUint_def leading_digits_def s1 decimal_value_def)
  qed
  show ?thesis
  proof (cases "4294967295 < decimal_value (leading_digits s)")
    case True
    with u Cons show ?thesis
      by (simp add: ParseInt_def Let_def has_minus_def)
  next
    case False
    with u Cons show ?thesis
      by (simp add: ParseInt_def Let_def)
  qed
qed

lemmas parse_defs = ParseInt_def ParseUint_def is_digit_def digit_value_def maxUint64_def

subsection \<open>The GetSubscription handler of the Transport Adapter\<close>

text \<open>
  Claim C9. The re-encoding in the transport GetSubscription handler can fail: for every
  subscription record produced by the orchestrator whose processor-assigned identifier is
  not a decimal-numeric string, the handler returns an error instead of a response. The
  empty record is such a record: its identifier is the empty string, the orchestrator
  produces it for the empty subscription identifier, and the handler then returns a
  syntax error.
\<close>

theorem server_GetSubscription_reencoding_can_fail:
  "(fst (GetSubscription gw endDate stripeSubID w) = Inr subscription
      \<and> \<not> is_decimal (ID subscription)
    \<longrightarrow> (\<exists>err. fst (server_GetSubscription gw endDate stripeSubID w) = Inr (Inl err)))
   \<and> \<not> is_decimal (ID empty_Subscription)
   \<and> fst (GetSubscription gw endDate '''' w) = Inr empty_Subscription
   \<and> fst (server_GetSubscription gw endDate '''' w) = Inr (Inl ErrSyntax)"
proof -
  have a: "\<exists>err. fst (server_GetSubscription gw endDate stripeSubID w) = Inr (Inl err)"
    if h: "fst (GetSubscription gw endDate stripeSubID w) = Inr subscription"
      and n: "\<not> is_decimal (ID subscription)"
  proof -
    from n have "snd (ParseInt (ID subscription) 64) \<noteq> None"
      using ParseInt_ok_decimal [of 64 "ID subscription"] by auto
    then obtain v e where "ParseInt (ID subscription) 64 = (v, Some e)"
      by (cases "ParseInt (ID subscription) 64") auto
    with h show ?thesis
      by (cases "GetSubscription gw endDate stripeSubID w")
         (simp add: server_GetSubscription_def)
  qed
  have b: "\<not> is_decimal (ID empty_Subscription)"
    by (simp add: empty_Subscription_def is_decimal_def)
  have c: "fst (GetSubscription gw endDate '''' w) = Inr empty_Subscription"
    by (simp add: GetSubscription_def)
  have d: "fst (server_GetSubscription gw endDate '''' w) = Inr (Inl ErrSyntax)"
    by (simp add: server_GetSubscription_def GetSubscription_def empty_Subscription_def
          ParseInt_def)
  from a b c d show ?thesis by blast
qed

theorem server_GetSubscription_reencoding_can_fail_witness:
  "fst (GetSubscription mem_gateway 1700000000 ''sub_1'' world1)
     = Inr \<lparr>ID = ''sub_1'', PlanID = ''price_basic_123'', StripeSubID = ''sub_1'',
            Status = SUBSCRIPTION_STATUS_UNSPECIFIED, CurrentPeriodEnd = 1700000000\<rparr>
   \<and> \<not> is_decimal ''sub_1''
   \<and> fst (server_GetSubscription mem_gateway 1700000000 ''sub_1'' world1) = Inr (Inl ErrSyntax)"
  using server_GetSubscription_reencoding_can_fail
          [where gw = mem_gateway and endDate = 1700000000 and stripeSubID = "''sub_1''"
             and w = world1
             and subscription =
               "\<lparr>ID = ''sub_1'', PlanID = ''price_basic_123'', StripeSubID = ''sub_1'',
                 Status = SUBSCRIPTION_STATUS_UNSPECIFIED, CurrentPeriodEnd = 1700000000\<rparr>"]
  by (simp add: server_GetSubscription_def GetSubscription_def getPaymentStatusFromStripe_def
        stripe_status_defs io_defs mem_defs world1_def Let_def is_decimal_def parse_defs)

text \<open>
  Claim C10, as stated, fails: the handler's response need not carry PlanId 0 when the
  plan identifier is not a decimal-numeric string. The subscription \<open>124\<close> of
  \<open>world_numeric\<close> has a numeric identifier and the price identifier eleven nines followed
  by \<open>x\<close>, which is not decimal-numeric; the parser leaves as soon as the number read
  exceeds 4294967295, before it reads the \<open>x\<close>, so the discarded error is a range error
  and the response carries PlanId 2147483647.
\<close>

theorem server_GetSubscription_PlanId_counterexample:
  "fst (GetSubscription mem_gateway 0 ''124'' world_numeric)
     = Inr \<lparr>ID = ''124'', PlanID = ''99999999999x'', StripeSubID = ''124'',
            Status = SUBSCRIPTION_STATUS_ACTIVE, CurrentPeriodEnd = 0\<rparr>
   \<and> ParseInt ''124'' 64 = (124, None)
   \<and> \<not> is_decimal ''99999999999x''
   \<and> ParseInt ''99999999999x'' 32 = (2147483647, Some ErrRange)
   \<and> fst (server_GetSubscription mem_gateway 0 ''124'' world_numeric)
     = Inr (Inr \<lparr>Id = 124, PlanId = 2147483647, StripeSubscriptionId = ''124'',
                 pb_Status = SUBSCRIPTION_STATUS_ACTIVE, pb_CurrentPeriodEnd = 0\<rparr>)"
  by (simp add: server_GetSubscription_def GetSubscription_def getPaymentStatusFromStripe_def
        stripe_status_defs io_defs mem_defs world_numeric_def Let_def is_decimal_def parse_defs
        int32_def)

text \<open>
  Claim C10, amended. In the transport GetSubscription handler only the parse of the
  subscription identifier is checked: for every orchestrator record whose subscription
  identifier parses as an integer and whose plan identifier is not a decimal-numeric
  string, the plan identifier fails to parse, the handler discards that error and returns
  a success response with a nil error. PlanId is 0, with a syntax error discarded, unless
  the decimal digits that lead the plan identifier after an optional sign denote a number
  above 4294967295 (the largest unsigned 32-bit number); in that case the parser reports a
  range error before it reads the invalid byte, and PlanId is 2147483647, or -2147483648
  when the plan identifier begins with a minus sign.
\<close>

theorem server_GetSubscription_discards_plan_error:
  assumes "fst (GetSubscription gw endDate stripeSubID w) = Inr subscription"
    and "ParseInt (ID subscription) 64 = (subId, None)"
    and "\<not> is_decimal (PlanID subscription)"
  shows "snd (ParseInt (PlanID subscription) 32) =
           Some (if decimal_value (leading_digits (PlanID subscription)) \<le> 4294967295
                 then ErrSyntax else ErrRange)
         \<and> fst (server_GetSubscription gw endDate stripeSubID w) =
           Inr (Inr \<lparr>Id = subId,
                     PlanId =
                       (if decimal_value (leading_digits (PlanID subscription)) \<le> 4294967295
                          then 0
                        else if has_minus (PlanID subscription) then - 2147483648
                        else 2147483647),
                     StripeSubscriptionId = stripeSubID,
                     pb_Status = Status subscription,
                     pb_CurrentPeriodEnd = CurrentPeriodEnd subscription\<rparr>)"
proof -
  note p = ParseInt_32_not_decimal [OF assms(3)]
  have e: "snd (ParseInt (PlanID subscription) 32) =
           Some (if decimal_value (leading_digits (PlanID subscription)) \<le> 4294967295
                 then ErrSyntax else ErrRange)"
    by (simp add: p)
  have r: "fst (server_GetSubscription gw endDate stripeSubID w) =
           Inr (Inr \<lparr>Id = subId,
                     PlanId =
                       (if decimal_value (leading_digits (PlanID subscription)) \<le> 4294967295
                          then 0
                        else if has_minus (PlanID subscription) then - 2147483648
                        else 2147483647),
                     StripeSubscriptionId = stripeSubID,
                     pb_Status = Status subscription,
                     pb_CurrentPeriodEnd = CurrentPeriodEnd subscription\<rparr>)"
    using assms(1,2)
    by (cases "GetSubscription gw endDate stripeSubID w")
       (simp add: server_GetSubscription_def p int32_def)
  from e r show ?thesis by simp
qed

theorem server_GetSubscription_discards_plan_error_witness:
  "\<not> is_decimal ''price_basic_123''
   \<and> decimal_value (leading_digits ''price_basic_123'') = 0
   \<and> fst (server_GetSubscription mem_gateway 0 ''123'' world_numeric)
     = Inr (Inr \<lparr>Id = 123, PlanId = 0, StripeSubscriptionId = ''123'',
                 pb_Status = SUBSCRIPTION_STATUS_ACTIVE, pb_CurrentPeriodEnd = 0\<rparr>)
   \<and> \<not> is_decimal ''3000000000x''
   \<and> decimal_value (leading_digits ''3000000000x'') = 3000000000
   \<and> fst (server_GetSubscription mem_gateway 0 ''125'' world_numeric)
     = Inr (Inr \<lparr>Id = 125, PlanId = 0, StripeSubscriptionId = ''125'',
                 pb_Status = SUBSCRIPTION_STATUS_ACTIVE, pb_CurrentPeriodEnd = 0\<rparr>)
   \<and> \<not> is_decimal ''99999999999x''
   \<and> decimal_value (leading_digits ''99999999999x'') = 99999999999
   \<and> fst (server_GetSubscription mem_gateway 0 ''124'' world_numeric)
     = Inr (Inr \<lparr>Id = 124, PlanId = 2147483647, StripeSubscriptionId = ''124'',
                 pb_Status = SUBSCRIPTION_STATUS_ACTIVE, pb_CurrentPeriodEnd = 0\<rparr>)"
proof -
  let ?rec = "\<lambda>i p. \<lparr>ID = i, PlanID = p, StripeSubID = i,
                       Status = SUBSCRIPTION_STATUS_ACTIVE, CurrentPeriodEnd = 0\<rparr>"
  note get_defs = GetSubscription_def getPaymentStatusFromStripe_def stripe_status_defs
    io_defs mem_defs world_numeric_def Let_def
  note value_defs = decimal_value_def leading_digits_def strip_sign_def has_minus_def
    is_digit_def digit_value_def
  have a1: "fst (GetSubscription mem_gateway 0 ''123'' world_numeric)
            = Inr (?rec ''123'' ''price_basic_123'')"
    by (simp add: get_defs)
  have a2: "ParseInt (ID (?rec ''123'' ''price_basic_123'')) 64 = (123, None)"
    by (simp add: parse_defs Let_def)
  have a3: "\<not> is_decimal (PlanID (?rec ''123'' ''price_basic_123''))"
    by (simp add: is_decimal_def is_digit_def)
  have a4: "decimal_value (leading_digits ''price_basic_123'') = 0"
    by (simp add: value_defs)
  have b1: "fst (GetSubscription mem_gateway 0 ''125'' world_numeric)
            = Inr (?rec ''125'' ''3000000000x'')"
    by (simp add: get_defs)
  have b2: "ParseInt (ID (?rec ''125'' ''3000000000x'')) 64 = (125, None)"
    by (simp add: parse_defs Let_def)
  have b3: "\<not> is_decimal (PlanID (?rec ''125'' ''3000000000x''))"
    by (simp add: is_decimal_def is_digit_def)
  have b4: "decimal_value (leading_digits ''3000000000x'') = 3000000000"
    by (simp add: value_defs)
  have c1: "fst (GetSubscription mem_gateway 0 ''124'' world_numeric)
            = Inr (?rec ''124'' ''99999999999x'')"
    by (simp add: get_defs)
  have c2: "ParseInt (ID (?rec ''124'' ''99999999999x'')) 64 = (124, None)"
    by (simp add: parse_defs Let_def)
  have c3: "\<not> is_decimal (PlanID (?rec ''124'' ''99999999999x''))"
    by (simp add: is_decimal_def is_digit_def)
  have c4: "decimal_value (leading_digits ''99999999999x'') = 99999999999"
    by (simp add: value_defs)
  have c5: "\<not> has_minus ''99999999999x''"
    by (simp add: has_minus_def)
  from server_GetSubscription_discards_plan_error [OF a1 a2 a3]
       server_GetSubscription_discards_plan_error [OF b1 b2 b3]
       server_GetSubscription_discards_plan_error [OF c1 c2 c3]
       a3 a4 b3 b4 c3 c4 c5
  show ?thesis by simp
qed

end
